theory Spec2Isabelle
  imports Complex_Main "HOL-Library.Word"
begin

section \<open>The PDF editor component (PdfEditor)\<close>

text \<open>
  A shallow embedding of the \<^verbatim>\<open>PdfEditor\<close> React component: its state hooks become
  one record, each event handler becomes a function from the state before the event to
  the state after it, and what a handler reads from the DOM, from the clock or from the
  PDF libraries is a parameter of that function. JavaScript numbers are modelled as
  reals (page numbers and indices as integers), with exact arithmetic except in the
  coordinate transform, where the rounding of every operation is a parameter;
  \<^verbatim>\<open>a || b\<close> on numbers takes \<open>b\<close> exactly when \<open>a\<close> is \<open>0\<close> or absent.
\<close>

subsection \<open>Data\<close>

text \<open>
  The text of a run is a JavaScript string: a sequence of UTF-16 code units, whose
  length is the number of code units. The strings that the component only compares or
  passes on (ids, names, colours, messages) are modelled as \<open>string\<close>. \<open>utf16\<close> gives
  the code units of a text written in ASCII.
\<close>

type_synonym codeUnit = "16 word"

type_synonym jsString = "codeUnit list"

definition utf16 :: "string \<Rightarrow> jsString" where
  "utf16 cs = map of_char cs"

record rgb =
  r_c :: real
  g_c :: real
  b_c :: real

text \<open>The interface \<^verbatim>\<open>TextItem\<close>.\<close>

record textItem =
  id_ti :: string
  text_ti :: jsString
  x_ti :: real
  y_ti :: real
  width_ti :: real
  height_ti :: real
  fontSize :: real
  fontName :: string
  color_ti :: rgb
  rotation :: real
  pageIndex_ti :: int
  pageWidth :: real
  pageHeight :: real

record point =
  x_pt :: real
  y_pt :: real

datatype annotationType = Draw | Highlight | Rectangle | Circle

text \<open>The interface \<^verbatim>\<open>Annotation\<close>.\<close>

record annotation =
  id_an :: string
  type_an :: annotationType
  path :: "point list"
  color_an :: string
  pageIndex_an :: int

datatype editingMode = View | Edit | Annotate

datatype tool = Pointer | TextTool | HighlightTool | RectangleTool | CircleTool

text \<open>
  A toast is the component's only way of reporting to the user; an error is reported
  as a toast of the variant \<^verbatim>\<open>destructive\<close>.
\<close>

datatype toastVariant = Default | Destructive

record toast =
  title :: string
  description :: string
  variant :: toastVariant

text \<open>What the component reads of a dropped \<^verbatim>\<open>File\<close>.\<close>

record File =
  name_f :: string
  type_f :: string
  size_f :: nat

text \<open>
  A text item as pdf.js delivers it (\<^verbatim>\<open>item: any\<close>). The placement matrix, when
  there is one, is the six numbers \<open>[a, b, c, d, e, f]\<close>. A colour, when there is one,
  is a non-empty array of components in \<open>0..1\<close>, an object with \<open>r\<close>, \<open>g\<close>, \<open>b\<close>, or some
  other truthy value. An absent field is \<open>None\<close>.
\<close>

datatype rawColor = ColorArray real "real list" | ColorObject rgb | ColorOther

record rawItem =
  str :: jsString
  transform :: "(real \<times> real \<times> real \<times> real \<times> real \<times> real) option"
  width_raw :: "real option"
  height_raw :: "real option"
  color_raw :: "rawColor option"
  fontName_raw :: "string option"

text \<open>
  A page of the parsed document: its viewport at scale 1.0 and its text content.
  The document (\<^verbatim>\<open>PDFDocumentProxy\<close>) is the list of its pages.
\<close>

record pdfPage =
  viewport_width :: real
  viewport_height :: real
  items :: "rawItem list"

type_synonym pdfDocument = "pdfPage list"

record viewport =
  width_vp :: real
  height_vp :: real

text \<open>
  The state hooks and the two refs that hold data. An element of \<open>annotations\<close> is
  \<open>None\<close> where the array holds \<^verbatim>\<open>null\<close>.
\<close>

record session =
  file_s :: "File option"
  pdfDoc :: "pdfDocument option"
  currentPage :: int
  totalPages :: int
  scale :: real
  textItems :: "textItem list"
  annotations :: "annotation option list"
  editingMode :: editingMode
  selectedTool :: tool
  isProcessing :: bool
  progress :: real
  currentViewport :: "viewport option"
  isDrawing :: bool
  currentAnnotation :: "annotation option"
  toasts :: "toast list"

definition initialSession :: session where
  "initialSession =
     \<lparr>file_s = None, pdfDoc = None, currentPage = 1, totalPages = 0, scale = 3/2,
      textItems = [], annotations = [], editingMode = View, selectedTool = Pointer,
      isProcessing = False, progress = 0, currentViewport = None, isDrawing = False,
      currentAnnotation = None, toasts = []\<rparr>"

definition toast :: "toast \<Rightarrow> session \<Rightarrow> session" where
  "toast t s = s\<lparr>toasts := toasts s @ [t]\<rparr>"

text \<open>
  An event reports an error when it emits a destructive toast.
\<close>

definition reportsError :: "session \<Rightarrow> session \<Rightarrow> bool" where
  "reportsError s s' =
     (list_ex (\<lambda>t. variant t = Destructive) (drop (length (toasts s)) (toasts s')))"

subsection \<open>Editing text\<close>

text \<open>
  \<^verbatim>\<open>updateTextItem\<close>: \<^verbatim>\<open>prev.map((item) => (item.id === id ? { ...item, text: newText } : item))\<close>.
\<close>

definition updateTextItem :: "string \<Rightarrow> jsString \<Rightarrow> session \<Rightarrow> session" where
  "updateTextItem i newText s =
     s\<lparr>textItems := map (\<lambda>item. if id_ti item = i then item\<lparr>text_ti := newText\<rparr> else item)
                        (textItems s)\<rparr>"

definition getTextItemsForPage :: "int \<Rightarrow> session \<Rightarrow> textItem list" where
  "getTextItemsForPage pageIndex s = filter (\<lambda>item. pageIndex_ti item = pageIndex) (textItems s)"

subsection \<open>Loading and text extraction\<close>

text \<open>\<^verbatim>\<open>a || b\<close> where \<open>a\<close> is a number that may be absent.\<close>

definition or_num :: "real option \<Rightarrow> real \<Rightarrow> real" where
  "or_num a b = (case a of None \<Rightarrow> b | Some n \<Rightarrow> if n \<noteq> 0 then n else b)"

text \<open>\<^verbatim>\<open>a || b\<close> on strings: the empty string and an absent one are falsy.\<close>

definition or_str :: "string option \<Rightarrow> string \<Rightarrow> string" where
  "or_str a b = (case a of None \<Rightarrow> b | Some n \<Rightarrow> if n \<noteq> [] then n else b)"

definition Math_round :: "real \<Rightarrow> real" where
  "Math_round v = of_int \<lfloor>v + 1/2\<rfloor>"

text \<open>The decimal digits of a number, as a template literal prints it.\<close>

fun showNat :: "nat \<Rightarrow> string" where
  "showNat n =
     (if n < 10 then [''0123456789'' ! n]
      else showNat (n div 10) @ [''0123456789'' ! (n mod 10)])"

declare showNat.simps [simp del]

definition black :: rgb where
  "black = \<lparr>r_c = 0, g_c = 0, b_c = 0\<rparr>"

text \<open>
  The colour of an extracted item: black unless \<^verbatim>\<open>item.color\<close> is truthy; an array is
  scaled from \<open>0..1\<close> to \<open>0..255\<close>, an object is taken as it is.
\<close>

definition extractColor :: "rawColor option \<Rightarrow> rgb" where
  "extractColor c =
     (case c of
        None \<Rightarrow> black
      | Some (ColorArray c0 cs) \<Rightarrow>
          \<lparr>r_c = Math_round (c0 * 255),
           g_c = (if length (c0 # cs) > 1 then Math_round ((c0 # cs) ! 1 * 255) else 0),
           b_c = (if length (c0 # cs) > 2 then Math_round ((c0 # cs) ! 2 * 255) else 0)\<rparr>
      | Some (ColorObject c') \<Rightarrow> c'
      | Some ColorOther \<Rightarrow> black)"

text \<open>
  The body of the \<^verbatim>\<open>forEach\<close> of \<^verbatim>\<open>extractTextFromPdf\<close>: the items pushed for one
  raw item (none, or one), on page \<open>pageNum\<close> (counted from 1) at position \<open>index\<close>.
\<close>

definition extractItem :: "nat \<Rightarrow> pdfPage \<Rightarrow> nat \<Rightarrow> rawItem \<Rightarrow> textItem list" where
  "extractItem pageNum page index item =
     (case transform item of
        None \<Rightarrow> []
      | Some (a, b, c, d, e, f) \<Rightarrow>
          if str item = [] then []
          else
            let fontSize' = or_num (Some \<bar>a\<bar>) (or_num (Some \<bar>d\<bar>) (or_num (height_raw item) 12));
                x = or_num (Some e) 0;
                y = or_num (Some f) 0;
                width = or_num (width_raw item) (real (length (str item)) * fontSize' * (6/10));
                height = or_num (height_raw item) fontSize';
                color = extractColor (color_raw item);
                pdfY = viewport_height page - y
            in [\<lparr>id_ti = ''text-'' @ showNat pageNum @ ''-'' @ showNat index,
                 text_ti = str item,
                 x_ti = x,
                 y_ti = pdfY,
                 width_ti = width,
                 height_ti = height,
                 fontSize = fontSize',
                 fontName = or_str (fontName_raw item) ''Helvetica'',
                 color_ti = color,
                 rotation = 0,
                 pageIndex_ti = int pageNum - 1,
                 pageWidth = viewport_width page,
                 pageHeight = viewport_height page\<rparr>])"

definition extractPage :: "nat \<Rightarrow> pdfPage \<Rightarrow> textItem list" where
  "extractPage pageNum page =
     concat (map (\<lambda>(index, item). extractItem pageNum page index item) (enumerate 0 (items page)))"

definition extractTextFromPdf :: "pdfDocument \<Rightarrow> textItem list" where
  "extractTextFromPdf pdf =
     concat (map (\<lambda>(k, page). extractPage (k + 1) page) (enumerate 0 pdf))"

text \<open>The translation \<open>(e, f)\<close> of the placement matrix of a raw item, for stating where extracted items lie.\<close>

definition translation :: "rawItem \<Rightarrow> real \<times> real" where
  "translation item = (case transform item of Some (a, b, c, d, e, f) \<Rightarrow> (e, f) | None \<Rightarrow> (0, 0))"

text \<open>
  \<^verbatim>\<open>loadPdf\<close>. The parser (\<^verbatim>\<open>pdfjsLib.getDocument\<close>, with the pages and text contents
  it gives) is the parameter \<open>parse\<close>; where it rejects the file, \<open>parse\<close> is \<open>None\<close> and
  the \<^verbatim>\<open>catch\<close> block runs. The asynchronous steps are run to completion as one step.
\<close>

definition loadPdf :: "(File \<Rightarrow> pdfDocument option) \<Rightarrow> File \<Rightarrow> session \<Rightarrow> session" where
  "loadPdf parse pdfFile s =
     (let s1 = s\<lparr>isProcessing := True, progress := 10\<rparr>
      in case parse pdfFile of
           None \<Rightarrow>
             (toast \<lparr>title = ''Error'', description = ''Failed to load PDF. Please try again.'',
                     variant = Destructive\<rparr> s1)\<lparr>isProcessing := False\<rparr>
         | Some pdf \<Rightarrow>
             let s2 = s1\<lparr>pdfDoc := Some pdf, totalPages := int (length pdf), currentPage := 1,
                         textItems := [], annotations := [], scale := 3/2, progress := 50\<rparr>;
                 s3 = s2\<lparr>textItems := extractTextFromPdf pdf\<rparr>;
                 s4 = s3\<lparr>progress := 100, isProcessing := False\<rparr>
             in toast \<lparr>title = ''PDF loaded'',
                       description = ''Successfully loaded '' @ showNat (length pdf) @ '' page(s)'',
                       variant = Default\<rparr> s4)"

definition onDrop :: "(File \<Rightarrow> pdfDocument option) \<Rightarrow> File list \<Rightarrow> session \<Rightarrow> session" where
  "onDrop parse acceptedFiles s =
     (case acceptedFiles of
        [] \<Rightarrow> s
      | pdfFile # _ \<Rightarrow>
          if type_f pdfFile \<noteq> ''application/pdf'' then
            toast \<lparr>title = ''Invalid file'', description = ''Please upload a PDF file'',
                   variant = Destructive\<rparr> s
          else if size_f pdfFile > 50 * 1024 * 1024 then
            toast \<lparr>title = ''File too large'',
                   description = ''Please upload a PDF smaller than 50MB'',
                   variant = Destructive\<rparr> s
          else loadPdf parse pdfFile (s\<lparr>file_s := Some pdfFile\<rparr>))"

subsection \<open>Coordinate transform\<close>

record canvas =
  width_cv :: real
  height_cv :: real




subsection \<open>Annotations\<close>

text \<open>What the handlers read of a mouse event and of \<^verbatim>\<open>getBoundingClientRect()\<close>.\<close>

record mouseEvent =
  clientX :: real
  clientY :: real

record domRect =
  left_r :: real
  top_r :: real

text \<open>
  The position of the mouse on the canvas, as both handlers compute it:
  \<^verbatim>\<open>x = e.clientX - rect.left\<close>, \<^verbatim>\<open>y = e.clientY - rect.top\<close>.
\<close>

definition canvasPoint :: "domRect \<Rightarrow> mouseEvent \<Rightarrow> point" where
  "canvasPoint rc e = \<lparr>x_pt = clientX e - left_r rc, y_pt = clientY e - top_r rc\<rparr>"

definition newAnnotation ::
    "nat \<Rightarrow> annotationType \<Rightarrow> point \<Rightarrow> session \<Rightarrow> annotation" where
  "newAnnotation now ty p s =
     \<lparr>id_an = ''annotation-'' @ showNat now,
      type_an = ty,
      path = [p],
      color_an = (if selectedTool s = HighlightTool then ''#ffff00'' else ''#ff0000''),
      pageIndex_an = currentPage s - 1\<rparr>"

text \<open>
  \<^verbatim>\<open>handleAnnotationStart\<close>. \<open>now\<close> is \<^verbatim>\<open>Date.now()\<close>; \<open>rect\<close> is the bounding rectangle
  of the annotation canvas, \<open>None\<close> when \<^verbatim>\<open>annotationCanvasRef.current\<close> is null.
\<close>

definition handleAnnotationStart ::
    "nat \<Rightarrow> domRect option \<Rightarrow> mouseEvent \<Rightarrow> session \<Rightarrow> session" where
  "handleAnnotationStart now rect e s =
     (case rect of
        None \<Rightarrow> s
      | Some rc \<Rightarrow>
          let p = canvasPoint rc e;
              begin = (\<lambda>ty. s\<lparr>isDrawing := True,
                               currentAnnotation := Some (newAnnotation now ty p s)\<rparr>)
          in (case selectedTool s of
                Pointer \<Rightarrow> s
              | TextTool \<Rightarrow> begin Draw
              | HighlightTool \<Rightarrow> begin Highlight
              | RectangleTool \<Rightarrow> begin Rectangle
              | CircleTool \<Rightarrow> begin Circle))"

text \<open>
  \<^verbatim>\<open>handleAnnotationMove\<close>: the point is pushed to the path before
  \<^verbatim>\<open>renderAnnotations\<close> is called, so the state after the handler is the same whether
  that call draws or throws.
\<close>

definition handleAnnotationMove :: "domRect option \<Rightarrow> mouseEvent \<Rightarrow> session \<Rightarrow> session" where
  "handleAnnotationMove rect e s =
     (case (rect, currentAnnotation s) of
        (Some rc, Some a) \<Rightarrow>
          if \<not> isDrawing s then s
          else
            let p = canvasPoint rc e
            in s\<lparr>currentAnnotation := Some (a\<lparr>path := path a @ [p]\<rparr>)\<rparr>
      | _ \<Rightarrow> s)"

text \<open>
  \<^verbatim>\<open>handleAnnotationEnd\<close>. The updater given to \<^verbatim>\<open>setAnnotations\<close>,
  \<^verbatim>\<open>(prev) => [...prev, currentAnnotationRef.current!]\<close>, reads the ref when React runs
  it, after the handler has set the ref to \<^verbatim>\<open>null\<close> in its next statement: the element
  it appends is \<^verbatim>\<open>null\<close>.
\<close>

definition handleAnnotationEnd :: "session \<Rightarrow> session" where
  "handleAnnotationEnd s =
     (let s' = (case currentAnnotation s of
                  Some a \<Rightarrow>
                    if isDrawing s
                    then s\<lparr>annotations := annotations s @ [None], currentAnnotation := None\<rparr>
                    else s
                | None \<Rightarrow> s)
      in s'\<lparr>isDrawing := False\<rparr>)"

text \<open>
  The drawing calls of \<^verbatim>\<open>renderAnnotations\<close> on the 2D context of the annotation
  canvas, with the stroke colour, line width and alpha in force at each.
\<close>

datatype canvasOp =
    ClearRect real real real real
  | StrokePath "point list" string real real
  | StrokeRect real real real real string real
  | StrokeArc real real real string real

definition drawAnnotation :: "annotation \<Rightarrow> canvasOp list" where
  "drawAnnotation a =
     (let lineWidth = (if type_an a = Highlight then 15 else 2) in
      case type_an a of
        Draw \<Rightarrow> if length (path a) > 1 then [StrokePath (path a) (color_an a) lineWidth 1] else []
      | Highlight \<Rightarrow>
          if length (path a) > 1 then [StrokePath (path a) (color_an a) lineWidth (3/10)] else []
      | Rectangle \<Rightarrow>
          if length (path a) \<ge> 2 then
            let start = path a ! 0; end' = path a ! (length (path a) - 1)
            in [StrokeRect (x_pt start) (y_pt start) (x_pt end' - x_pt start)
                  (y_pt end' - y_pt start) (color_an a) lineWidth]
          else []
      | Circle \<Rightarrow>
          if length (path a) \<ge> 2 then
            let start = path a ! 0; end' = path a ! (length (path a) - 1);
                radius = sqrt ((x_pt end' - x_pt start)\<^sup>2 + (y_pt end' - y_pt start)\<^sup>2)
            in [StrokeArc (x_pt start) (y_pt start) radius (color_an a) lineWidth]
          else [])"

text \<open>
  \<^verbatim>\<open>annotations.filter((a) => a.pageIndex === pageIndex)\<close>: reading \<^verbatim>\<open>pageIndex\<close> of
  an element that is \<^verbatim>\<open>null\<close> throws a \<^verbatim>\<open>TypeError\<close>.
\<close>

datatype jsError = TypeError

fun filterAnnotations :: "int \<Rightarrow> annotation option list \<Rightarrow> jsError + annotation list" where
  "filterAnnotations pageIndex [] = Inr []"
| "filterAnnotations pageIndex (None # rest) = Inl TypeError"
| "filterAnnotations pageIndex (Some a # rest) =
     (case filterAnnotations pageIndex rest of
        Inl err \<Rightarrow> Inl err
      | Inr kept \<Rightarrow> Inr (if pageIndex_an a = pageIndex then a # kept else kept))"

text \<open>
  \<^verbatim>\<open>renderAnnotations\<close>. \<open>cv\<close> is the PDF canvas, \<open>None\<close> when either canvas ref is null;
  the annotation canvas takes its size. Where the filter throws, the canvas has been
  cleared and nothing is drawn.
\<close>

definition renderAnnotations ::
    "canvas option \<Rightarrow> int \<Rightarrow> session \<Rightarrow> jsError + canvasOp list" where
  "renderAnnotations cv pageIndex s =
     (case cv of
        None \<Rightarrow> Inr []
      | Some canvas \<Rightarrow>
          (case filterAnnotations pageIndex (annotations s) of
             Inl err \<Rightarrow> Inl err
           | Inr pageAnnotations \<Rightarrow>
               if pageAnnotations = []
               then Inr [ClearRect 0 0 (width_cv canvas) (height_cv canvas)]
               else
                 Inr (ClearRect 0 0 (width_cv canvas) (height_cv canvas)
                      # concat (map drawAnnotation pageAnnotations)
                      @ (case currentAnnotation s of
                           Some a \<Rightarrow>
                             if isDrawing s \<and> length (path a) > 1
                             then [StrokePath (path a) (color_an a)
                                     (if type_an a = Highlight then 15 else 2)
                                     (if type_an a = Highlight then 3/10 else 1)]
                             else []
                         | None \<Rightarrow> []))))"

subsection \<open>Export\<close>

text \<open>
  \<^verbatim>\<open>String.prototype.trim\<close> removes from both ends the code units that are white space
  or line terminators: TAB, LF, VT, FF, CR, SP, NBSP, U+1680, U+2000 to U+200A, U+2028,
  U+2029, U+202F, U+205F, U+3000 and U+FEFF.
\<close>

definition isWhiteSpace :: "codeUnit \<Rightarrow> bool" where
  "isWhiteSpace c =
     (c \<in> set [0x0009, 0x000A, 0x000B, 0x000C, 0x000D, 0x0020, 0x00A0, 0x1680,
                0x2000, 0x2001, 0x2002, 0x2003, 0x2004, 0x2005, 0x2006, 0x2007,
                0x2008, 0x2009, 0x200A, 0x2028, 0x2029, 0x202F, 0x205F, 0x3000, 0xFEFF])"

definition trim :: "jsString \<Rightarrow> jsString" where
  "trim t = rev (dropWhile isWhiteSpace (rev (dropWhile isWhiteSpace t)))"

text \<open>
  The drawing calls made on the pages of the pdf-lib document; the first component is
  the index of the page drawn on. Every rectangle is white; a text is drawn in the given
  size and colour with the embedded font, or with none given.
\<close>

datatype pdfOp =
    DrawRectangle int real real real real
  | DrawText int jsString real real real rgb "string option"

definition rgb01 :: "rgb \<Rightarrow> rgb" where
  "rgb01 c = \<lparr>r_c = min 1 (max 0 (r_c c / 255)),
              g_c = min 1 (max 0 (g_c c / 255)),
              b_c = min 1 (max 0 (b_c c / 255))\<rparr>"

definition coverRectangle :: "int \<Rightarrow> real \<Rightarrow> textItem \<Rightarrow> pdfOp" where
  "coverRectangle pageIndex height textItem =
     (let textBottom = height - y_ti textItem - height_ti textItem;
          padding = 2
      in DrawRectangle pageIndex (x_ti textItem - padding) (textBottom - padding)
           (width_ti textItem + padding * 2) (height_ti textItem + padding * 2))"

text \<open>
  The second loop's body. \<open>fails True t\<close> says that drawing \<open>t\<close> with the embedded
  Helvetica throws, \<open>fails False t\<close> that drawing it with no font given throws: the
  library decides both.
\<close>

definition drawEditedText ::
    "(bool \<Rightarrow> textItem \<Rightarrow> bool) \<Rightarrow> int \<Rightarrow> real \<Rightarrow> textItem \<Rightarrow> pdfOp list" where
  "drawEditedText fails pageIndex height textItem =
     (if trim (text_ti textItem) \<noteq> [] then
        let color = rgb01 (color_ti textItem);
            yPos = height - y_ti textItem
        in if \<not> fails True textItem then
             [DrawText pageIndex (text_ti textItem) (x_ti textItem) yPos (fontSize textItem)
                color (Some ''Helvetica'')]
           else if \<not> fails False textItem then
             [DrawText pageIndex (text_ti textItem) (x_ti textItem) yPos (fontSize textItem)
                color None]
           else []
      else [])"

text \<open>One round of the page loop of \<^verbatim>\<open>exportPdf\<close>; \<open>pageSize\<close> is \<^verbatim>\<open>page.getSize()\<close>.\<close>

definition exportPage ::
    "(bool \<Rightarrow> textItem \<Rightarrow> bool) \<Rightarrow> session \<Rightarrow> int \<Rightarrow> real \<times> real \<Rightarrow> pdfOp list" where
  "exportPage fails s pageIndex pageSize =
     (let pageTextItems = filter (\<lambda>item. pageIndex_ti item = pageIndex) (textItems s);
          height = snd pageSize
      in map (coverRectangle pageIndex height) pageTextItems
         @ concat (map (drawEditedText fails pageIndex height) pageTextItems))"

text \<open>The page loop; \<open>sizes\<close> are the sizes of the pages of the pdf-lib document.\<close>

definition exportPages ::
    "(bool \<Rightarrow> textItem \<Rightarrow> bool) \<Rightarrow> (real \<times> real) list \<Rightarrow> session \<Rightarrow> pdfOp list" where
  "exportPages fails sizes s =
     concat (map (\<lambda>(pageIndex, pageSize). exportPage fails s (int pageIndex) pageSize)
               (enumerate 0 sizes))"

text \<open>
  \<^verbatim>\<open>exportPdf\<close>. \<open>load\<close> is \<^verbatim>\<open>PDFDocument.load\<close> on the bytes of the file, giving the
  sizes of the pages (\<open>None\<close> where it throws); \<open>saves\<close> says whether \<^verbatim>\<open>save()\<close>
  succeeds. The second component is the drawing done on the document that is
  downloaded, \<open>None\<close> when nothing is downloaded.
\<close>

definition exportFailed :: "session \<Rightarrow> session" where
  "exportFailed s =
     (toast \<lparr>title = ''Error'', description = ''Failed to export PDF. Please try again.'',
             variant = Destructive\<rparr> s)\<lparr>isProcessing := False\<rparr>"

definition exportPdf ::
    "(File \<Rightarrow> (real \<times> real) list option) \<Rightarrow> (bool \<Rightarrow> textItem \<Rightarrow> bool) \<Rightarrow> bool \<Rightarrow> session
       \<Rightarrow> session \<times> pdfOp list option" where
  "exportPdf load fails saves s =
     (case (file_s s, pdfDoc s) of
        (Some f, Some _) \<Rightarrow>
          (let s1 = s\<lparr>isProcessing := True, progress := 0\<rparr>
           in case load f of
                None \<Rightarrow> (exportFailed s1, None)
              | Some sizes \<Rightarrow>
                  let ops = exportPages fails sizes s
                  in if saves then
                       ((toast \<lparr>title = ''Success!'', description = ''PDF exported successfully'',
                                variant = Default\<rparr> (s1\<lparr>progress := 100\<rparr>))
                          \<lparr>isProcessing := False\<rparr>, Some ops)
                     else (exportFailed (s1\<lparr>progress := 80\<rparr>), None))
      | _ \<Rightarrow>
          (toast \<lparr>title = ''No PDF loaded'', description = ''Please upload a PDF first'',
                  variant = Destructive\<rparr> s, None))"

subsection \<open>Zoom\<close>

record container =
  clientWidth :: real
  clientHeight :: real

definition handleZoomIn :: "session \<Rightarrow> session" where
  "handleZoomIn s = s\<lparr>scale := min (scale s + 1/4) 3\<rparr>"

definition handleZoomOut :: "session \<Rightarrow> session" where
  "handleZoomOut s = s\<lparr>scale := max (scale s - 1/4) (1/2)\<rparr>"

text \<open>
  \<^verbatim>\<open>handleFitToWidth\<close> and \<^verbatim>\<open>handleFitToScreen\<close>; \<open>ct\<close> is \<^verbatim>\<open>containerRef.current\<close>
  and \<open>cv\<close> is \<^verbatim>\<open>canvasRef.current\<close>. The quotients are those of the reals: they are
  the JavaScript quotients where no divisor is \<open>0\<close>, that is where the scale and the size
  of the canvas are not \<open>0\<close>.
\<close>

definition handleFitToWidth :: "container option \<Rightarrow> canvas option \<Rightarrow> session \<Rightarrow> session" where
  "handleFitToWidth ct cv s =
     (case (ct, cv) of
        (Some container, Some canvas) \<Rightarrow>
          let containerWidth = clientWidth container - 100;
              canvasWidth = width_cv canvas / scale s
          in s\<lparr>scale := containerWidth / canvasWidth\<rparr>
      | _ \<Rightarrow> s)"

definition handleFitToScreen :: "container option \<Rightarrow> canvas option \<Rightarrow> session \<Rightarrow> session" where
  "handleFitToScreen ct cv s =
     (case (ct, cv) of
        (Some container, Some canvas) \<Rightarrow>
          let containerWidth = clientWidth container - 100;
              containerHeight = clientHeight container - 100;
              canvasWidth = width_cv canvas / scale s;
              canvasHeight = height_cv canvas / scale s;
              scaleX = containerWidth / canvasWidth;
              scaleY = containerHeight / canvasHeight
          in s\<lparr>scale := min scaleX scaleY\<rparr>
      | _ \<Rightarrow> s)"

subsection \<open>Page navigation\<close>














subsection \<open>Sample data\<close>

text \<open>
  A one-page session with the single run ``Hello'' at \<open>(10, 20)\<close>, \<open>50\<close> by \<open>14\<close> points,
  on a page of \<open>200\<close> by \<open>200\<close> points.
\<close>

definition helloItem :: textItem where
  "helloItem =
     \<lparr>id_ti = ''text-1-0'', text_ti = utf16 ''Hello'', x_ti = 10, y_ti = 20, width_ti = 50,
      height_ti = 14, fontSize = 14, fontName = ''Helvetica'', color_ti = black, rotation = 0,
      pageIndex_ti = 0, pageWidth = 200, pageHeight = 200\<rparr>"

definition helloSession :: session where
  "helloSession = initialSession\<lparr>totalPages := 1, textItems := [helloItem]\<rparr>"

definition bigFile :: File where
  "bigFile = \<lparr>name_f = ''big.pdf'', type_f = ''application/pdf'', size_f = 52428801\<rparr>"

text \<open>Raw items on a page of \<open>100\<close> by \<open>100\<close> points.\<close>

definition smallPage :: "rawItem list \<Rightarrow> pdfPage" where
  "smallPage its = \<lparr>viewport_width = 100, viewport_height = 100, items = its\<rparr>"

definition tallItem :: rawItem where
  "tallItem = \<lparr>str = utf16 ''Hi'', transform = Some (10, 0, 0, 12, 30, 40), width_raw = None,
               height_raw = None, color_raw = None, fontName_raw = None\<rparr>"

definition strayItem :: rawItem where
  "strayItem = \<lparr>str = utf16 ''Hi'', transform = Some (12, 0, 0, 12, -5, 150), width_raw = Some 11,
                height_raw = Some 12, color_raw = None, fontName_raw = None\<rparr>"

definition bareItem :: rawItem where
  "bareItem = \<lparr>str = utf16 ''Hi'', transform = None, width_raw = Some 11,
               height_raw = Some 12, color_raw = None, fontName_raw = None\<rparr>"

text \<open>
  More runs on the page of the session above: one that overlaps ``Hello'', and one
  whose text is a space and a no-break space.
\<close>

definition worldItem :: textItem where
  "worldItem =
     \<lparr>id_ti = ''text-1-1'', text_ti = utf16 ''World'', x_ti = 55, y_ti = 22, width_ti = 50,
      height_ti = 14, fontSize = 14, fontName = ''Helvetica'', color_ti = black, rotation = 0,
      pageIndex_ti = 0, pageWidth = 200, pageHeight = 200\<rparr>"

definition blankItem :: textItem where
  "blankItem =
     \<lparr>id_ti = ''text-1-2'', text_ti = [0x0020, 0x00A0], x_ti = 120, y_ti = 22, width_ti = 4,
      height_ti = 14, fontSize = 14, fontName = ''Helvetica'', color_ti = black, rotation = 0,
      pageIndex_ti = 0, pageWidth = 200, pageHeight = 200\<rparr>"

definition overlapSession :: session where
  "overlapSession = initialSession\<lparr>totalPages := 1, textItems := [helloItem, worldItem, blankItem]\<rparr>"

text \<open>
  A session in the annotate mode with the rectangle tool, at scale \<open>1\<close>; an annotation
  canvas whose top left corner is the top left corner of the window; a mouse event.
\<close>

definition rectangleSession :: session where
  "rectangleSession = initialSession\<lparr>totalPages := 1, scale := 1, editingMode := Annotate,
                                     selectedTool := RectangleTool\<rparr>"

definition canvasOrigin :: domRect where
  "canvasOrigin = \<lparr>left_r = 0, top_r = 0\<rparr>"

definition mouseAt :: "real \<Rightarrow> real \<Rightarrow> mouseEvent" where
  "mouseAt x y = \<lparr>clientX = x, clientY = y\<rparr>"


text \<open>Containers of the viewer.\<close>

definition wideContainer :: container where
  "wideContainer = \<lparr>clientWidth = 1000, clientHeight = 1100\<rparr>"

definition narrowContainer :: container where
  "narrowContainer = \<lparr>clientWidth = 100, clientHeight = 700\<rparr>"

text \<open>The canvas of a page of 200 by 200 points rendered at the initial scale 1.5.\<close>

definition renderedCanvas :: canvas where
  "renderedCanvas = \<lparr>width_cv = 300, height_cv = 300\<rparr>"



text \<open>A canvas of \<open>400\<close> by \<open>400\<close> pixels; a canvas that keeps the integer part of a length.\<close>

definition canvas400 :: canvas where
  "canvas400 = \<lparr>width_cv = 400, height_cv = 400\<rparr>"


subsection \<open>Reading the drawing operations\<close>

text \<open>The page an operation draws on, its kind, and the text it draws.\<close>

fun opPage :: "pdfOp \<Rightarrow> int" where
  "opPage (DrawRectangle p x y w h) = p"
| "opPage (DrawText p t x y sz c f) = p"

fun isDrawText :: "pdfOp \<Rightarrow> bool" where
  "isDrawText (DrawRectangle p x y w h) = False"
| "isDrawText (DrawText p t x y sz c f) = True"

fun isDrawRectangle :: "pdfOp \<Rightarrow> bool" where
  "isDrawRectangle (DrawRectangle p x y w h) = True"
| "isDrawRectangle (DrawText p t x y sz c f) = False"

fun opText :: "pdfOp \<Rightarrow> jsString" where
  "opText (DrawRectangle p x y w h) = []"
| "opText (DrawText p t x y sz c f) = t"

text \<open>Rank of an operation in the order of drawing: by page, covers before texts.\<close>

definition rank :: "pdfOp \<Rightarrow> int" where
  "rank op = 2 * opPage op + (if isDrawText op then 1 else 0)"

section \<open>Properties\<close>

subsection \<open>Editing text\<close>

text \<open>
  C3. \<open>updateTextItem\<close> changes nothing of the session but the list of text items; the
  list keeps its length and order; of every item, every field other than the text is the
  same before and after, the text is the new text exactly if the id is the given one, and
  an item with another id is unchanged as a whole.
\<close>

theorem updateTextItem_changes_only_text:
  "updateTextItem i newText s = s\<lparr>textItems := textItems (updateTextItem i newText s)\<rparr> \<and>
   length (textItems (updateTextItem i newText s)) = length (textItems s) \<and>
   (\<forall>k < length (textItems s).
      let before = textItems s ! k; after = textItems (updateTextItem i newText s) ! k
      in text_ti after = (if id_ti before = i then newText else text_ti before) \<and>
         id_ti after = id_ti before \<and> x_ti after = x_ti before \<and> y_ti after = y_ti before \<and>
         width_ti after = width_ti before \<and> height_ti after = height_ti before \<and>
         fontSize after = fontSize before \<and> fontName after = fontName before \<and>
         color_ti after = color_ti before \<and> rotation after = rotation before \<and>
         pageIndex_ti after = pageIndex_ti before \<and> pageWidth after = pageWidth before \<and>
         pageHeight after = pageHeight before \<and>
         (id_ti before \<noteq> i \<longrightarrow> after = before))"
  by (simp add: updateTextItem_def Let_def)

theorem updateTextItem_changes_only_text_witness:
  "0 < length (textItems helloSession) \<and>
   (let after = textItems (updateTextItem ''text-1-0'' (utf16 ''Hi'') helloSession) ! 0
    in text_ti after = utf16 ''Hi'' \<and> x_ti after = 10 \<and> y_ti after = 20 \<and> width_ti after = 50 \<and>
       height_ti after = 14 \<and> fontSize after = 14 \<and> pageIndex_ti after = 0)"
  using updateTextItem_changes_only_text [of "''text-1-0''" "utf16 ''Hi''" helloSession]
  by (simp add: helloSession_def helloItem_def Let_def utf16_def)

text \<open>
  C4, as stated, fails: an update with an id that no item has does not fail. In the
  one-run session, updating the id \<open>text-9-9\<close> returns the session as it was and
  reports no error.
\<close>

theorem updateTextItem_unknown_id_counterexample:
  "updateTextItem ''text-9-9'' (utf16 ''Hi'') helloSession = helloSession \<and>
   \<not> reportsError helloSession (updateTextItem ''text-9-9'' (utf16 ''Hi'') helloSession)"
  by (simp add: updateTextItem_def helloSession_def helloItem_def reportsError_def
      initialSession_def utf16_def)

text \<open>
  C4, amended. An update with an id that no item has is a silent no-op: the session,
  and with it the collection of text items, is unchanged, and no error is reported.
\<close>

theorem updateTextItem_unknown_id:
  assumes "i \<notin> set (map id_ti (textItems s))"
  shows "updateTextItem i newText s = s \<and> \<not> reportsError s (updateTextItem i newText s)"
proof -
  have "map (\<lambda>item. if id_ti item = i then item\<lparr>text_ti := newText\<rparr> else item) (textItems s)
          = textItems s"
    using assms by (intro map_idI) auto
  then show ?thesis
    by (simp add: updateTextItem_def reportsError_def)
qed

theorem updateTextItem_unknown_id_witness:
  "''text-9-9'' \<notin> set (map id_ti (textItems helloSession)) \<and>
   updateTextItem ''text-9-9'' (utf16 ''Hi'') helloSession = helloSession"
  using updateTextItem_unknown_id [of "''text-9-9''" helloSession "utf16 ''Hi''"]
  by (simp add: helloSession_def helloItem_def utf16_def)

subsection \<open>Loading\<close>

text \<open>
  C10. A dropped file whose type is not \<open>application/pdf\<close>, or whose size is above
  \<open>50 * 1024 * 1024\<close> bytes, is rejected with an error toast and nothing else: the
  session is the one before with that toast added, whatever the parser would have
  answered, so the current file, the document, the text items and the annotations are
  as they were.
\<close>

theorem onDrop_rejects_before_parsing:
  assumes "type_f pdfFile \<noteq> ''application/pdf'' \<or> 50 * 1024 * 1024 < size_f pdfFile"
  shows "(\<exists>t. variant t = Destructive \<and>
            onDrop parse (pdfFile # rest) s = s\<lparr>toasts := toasts s @ [t]\<rparr>) \<and>
         onDrop parse (pdfFile # rest) s = onDrop parse' (pdfFile # rest) s \<and>
         file_s (onDrop parse (pdfFile # rest) s) = file_s s \<and>
         pdfDoc (onDrop parse (pdfFile # rest) s) = pdfDoc s \<and>
         textItems (onDrop parse (pdfFile # rest) s) = textItems s \<and>
         annotations (onDrop parse (pdfFile # rest) s) = annotations s"
proof (cases "type_f pdfFile \<noteq> ''application/pdf''")
  case True
  define t where "t = \<lparr>title = ''Invalid file'', description = ''Please upload a PDF file'',
                        variant = Destructive\<rparr>"
  have r: "\<And>p. onDrop p (pdfFile # rest) s = s\<lparr>toasts := toasts s @ [t]\<rparr>"
    using True by (simp add: onDrop_def toast_def t_def)
  have "variant t = Destructive" by (simp add: t_def)
  then show ?thesis unfolding r by auto
next
  case False
  define t where "t = \<lparr>title = ''File too large'',
                        description = ''Please upload a PDF smaller than 50MB'',
                        variant = Destructive\<rparr>"
  from False assms have big: "50 * 1024 * 1024 < size_f pdfFile" by simp
  have r: "\<And>p. onDrop p (pdfFile # rest) s = s\<lparr>toasts := toasts s @ [t]\<rparr>"
    using False big by (simp add: onDrop_def toast_def t_def)
  have "variant t = Destructive" by (simp add: t_def)
  then show ?thesis unfolding r by auto
qed

theorem onDrop_rejects_before_parsing_witness:
  "50 * 1024 * 1024 < size_f bigFile \<and>
   textItems (onDrop (\<lambda>f. Some []) [bigFile] helloSession) = [helloItem] \<and>
   file_s (onDrop (\<lambda>f. Some []) [bigFile] helloSession) = None"
  using onDrop_rejects_before_parsing [of bigFile "\<lambda>f. Some []" "[]" helloSession]
  by (simp add: bigFile_def helloSession_def initialSession_def)

subsection \<open>Text extraction\<close>

text \<open>
  C5, as stated, fails: the font size is not the larger of \<open>|a|\<close> and \<open>|d|\<close>. For the
  matrix \<open>[10, 0, 0, 12, 30, 40]\<close> the extracted font size is \<open>10\<close>, and the larger is
  \<open>12\<close>.
\<close>

theorem extractItem_fontSize_counterexample:
  "map fontSize (extractItem 1 (smallPage [tallItem]) 0 tallItem) = [10] \<and>
   max \<bar>10\<bar> \<bar>12 :: real\<bar> = 12"
  by (simp add: extractItem_def tallItem_def smallPage_def or_num_def Let_def utf16_def)

text \<open>
  C5, amended. An item with a placement matrix \<open>[a, b, c, d, e, f]\<close> and a non-empty
  string yields exactly one text item. Its font size is \<open>|a|\<close> if \<open>a\<close> is not \<open>0\<close>,
  else \<open>|d|\<close> if \<open>d\<close> is not \<open>0\<close>, else the height of the item if there is one and it is
  not \<open>0\<close>, else \<open>12\<close>. Its width is the width of the item if there is one and it is not
  \<open>0\<close>, else the number of characters times the font size times \<open>0.6\<close>; its height is
  the height of the item if there is one and it is not \<open>0\<close>, else the font size; its
  colour is \<open>{0, 0, 0}\<close> when the item has none; its origin is \<open>(e, pageHeight - f)\<close>.
\<close>

theorem extractItem_fields:
  assumes "transform item = Some (a, b, c, d, e, f)" and "str item \<noteq> []"
  shows "let extracted = extractItem pageNum page index item;
             size' = (if a \<noteq> 0 then \<bar>a\<bar> else if d \<noteq> 0 then \<bar>d\<bar>
                      else case height_raw item of
                             Some h \<Rightarrow> if h \<noteq> 0 then h else 12 | None \<Rightarrow> 12);
             estimate = real (length (str item)) * size' * (6/10)
         in map fontSize extracted = [size'] \<and>
            map width_ti extracted =
              [case width_raw item of
                 Some w \<Rightarrow> if w \<noteq> 0 then w else estimate | None \<Rightarrow> estimate] \<and>
            map height_ti extracted =
              [case height_raw item of
                 Some h \<Rightarrow> if h \<noteq> 0 then h else size' | None \<Rightarrow> size'] \<and>
            (color_raw item = None \<longrightarrow>
               map color_ti extracted = [\<lparr>r_c = 0, g_c = 0, b_c = 0\<rparr>]) \<and>
            map x_ti extracted = [e] \<and>
            map y_ti extracted = [viewport_height page - f]"
  using assms
  by (simp add: extractItem_def or_num_def Let_def extractColor_def black_def split: option.splits)

theorem extractItem_fields_witness:
  "transform tallItem = Some (10, 0, 0, 12, 30, 40) \<and> str tallItem \<noteq> [] \<and>
   color_raw tallItem = None \<and>
   (let extracted = extractItem 1 (smallPage [tallItem]) 0 tallItem
    in map fontSize extracted = [10] \<and> map width_ti extracted = [12] \<and>
       map height_ti extracted = [10] \<and>
       map color_ti extracted = [\<lparr>r_c = 0, g_c = 0, b_c = 0\<rparr>] \<and>
       map x_ti extracted = [30] \<and> map y_ti extracted = [60])"
  using extractItem_fields [of tallItem 10 0 0 12 30 40 1 "smallPage [tallItem]" 0]
  by (simp add: tallItem_def smallPage_def Let_def utf16_def)

lemma concat_map_enumerate:
  assumes "\<And>i x. F i x = G x"
  shows "concat (map (\<lambda>(i, x). F i x) (enumerate k xs)) = concat (map G xs)"
  by (induction xs arbitrary: k) (simp_all add: assms)

lemma concat_map_if_singleton:
  "concat (map (\<lambda>x. if P x then [h x] else []) xs) = map h (filter P xs)"
  by (induction xs) simp_all

lemma extractItem_position:
  "map (\<lambda>t. (x_ti t, y_ti t)) (extractItem pageNum page index item) =
     (if transform item \<noteq> None \<and> str item \<noteq> []
      then [(fst (translation item), viewport_height page - snd (translation item))] else [])"
  by (simp add: extractItem_def translation_def or_num_def Let_def split: option.splits)

lemma extractPage_positions:
  "map (\<lambda>t. (x_ti t, y_ti t)) (extractPage pageNum page) =
     map (\<lambda>item. (fst (translation item), viewport_height page - snd (translation item)))
       (filter (\<lambda>item. transform item \<noteq> None \<and> str item \<noteq> []) (items page))"
proof -
  have "map (\<lambda>t. (x_ti t, y_ti t)) (extractPage pageNum page) =
        concat (map (\<lambda>(index, item).
                  map (\<lambda>t. (x_ti t, y_ti t)) (extractItem pageNum page index item))
                (enumerate 0 (items page)))"
    by (simp add: extractPage_def map_concat case_prod_unfold comp_def)
  also have "\<dots> = concat (map (\<lambda>item. if transform item \<noteq> None \<and> str item \<noteq> []
      then [(fst (translation item), viewport_height page - snd (translation item))] else [])
      (items page))"
    by (rule concat_map_enumerate) (rule extractItem_position)
  also have "\<dots> = map (\<lambda>item. (fst (translation item), viewport_height page - snd (translation item)))
       (filter (\<lambda>item. transform item \<noteq> None \<and> str item \<noteq> []) (items page))"
    by (rule concat_map_if_singleton)
  finally show ?thesis .
qed

text \<open>
  C6, as stated, fails: an item whose matrix places it outside the page is kept. On a
  page of \<open>100\<close> by \<open>100\<close> points, the item with the translation \<open>(-5, 150)\<close> is extracted
  with the origin \<open>(-5, -50)\<close>.
\<close>

theorem extraction_keeps_out_of_range_counterexample:
  "map x_ti (extractTextFromPdf [smallPage [strayItem]]) = [-5] \<and>
   map y_ti (extractTextFromPdf [smallPage [strayItem]]) = [-50] \<and>
   viewport_width (smallPage [strayItem]) = 100 \<and> viewport_height (smallPage [strayItem]) = 100"
  by (simp add: extractTextFromPdf_def extractPage_def extractItem_def strayItem_def smallPage_def
      or_num_def Let_def enumerate_eq_zip utf16_def)

text \<open>
  C6, amended. Extraction keeps, in order, exactly the items that have a placement matrix
  and a non-empty string, and drops the others one by one; it checks no range. The
  origin of each extracted item is \<open>(e, pageHeight - f)\<close> for the translation \<open>(e, f)\<close>
  of its matrix, so it lies on the page exactly if the matrix puts it there.
\<close>

theorem extraction_positions:
  "map (\<lambda>t. (x_ti t, y_ti t)) (extractTextFromPdf pdf) =
     concat (map (\<lambda>page.
        map (\<lambda>item. (fst (translation item), viewport_height page - snd (translation item)))
          (filter (\<lambda>item. transform item \<noteq> None \<and> str item \<noteq> []) (items page))) pdf)"
proof -
  have "map (\<lambda>t. (x_ti t, y_ti t)) (extractTextFromPdf pdf) =
        concat (map (\<lambda>(k, page). map (\<lambda>t. (x_ti t, y_ti t)) (extractPage (k + 1) page))
                  (enumerate 0 pdf))"
    by (simp add: extractTextFromPdf_def map_concat case_prod_unfold comp_def)
  also have "\<dots> = concat (map (\<lambda>page.
        map (\<lambda>item. (fst (translation item), viewport_height page - snd (translation item)))
          (filter (\<lambda>item. transform item \<noteq> None \<and> str item \<noteq> []) (items page))) pdf)"
    by (rule concat_map_enumerate) (rule extractPage_positions)
  finally show ?thesis .
qed

theorem extraction_positions_witness:
  "map (\<lambda>t. (x_ti t, y_ti t)) (extractTextFromPdf [smallPage [strayItem, bareItem, tallItem]])
     = [(-5, -50), (30, 60)]"
  using extraction_positions [of "[smallPage [strayItem, bareItem, tallItem]]"]
  by (simp add: smallPage_def strayItem_def bareItem_def tallItem_def translation_def utf16_def)

subsection \<open>Export\<close>

lemma drawEditedText_ops:
  "op \<in> set (drawEditedText fails p h t) \<Longrightarrow>
     isDrawText op \<and> opPage op = p \<and> opText op = text_ti t \<and> trim (text_ti t) \<noteq> []"
  by (auto simp: drawEditedText_def Let_def split: if_splits)

lemma coverRectangle_op:
  "isDrawRectangle (coverRectangle p h t) \<and> \<not> isDrawText (coverRectangle p h t) \<and>
   opPage (coverRectangle p h t) = p"
  by (simp add: coverRectangle_def Let_def)

lemma rank_cover: "rank (coverRectangle p h t) = 2 * p"
  by (simp add: rank_def coverRectangle_op)

lemma rank_text: "op \<in> set (drawEditedText fails p h t) \<Longrightarrow> rank op = 2 * p + 1"
  by (drule drawEditedText_ops) (simp add: rank_def)

lemma exportPage_set:
  "set (exportPage fails s p sz) =
     coverRectangle p (snd sz) ` {t \<in> set (textItems s). pageIndex_ti t = p} \<union>
     (\<Union>t \<in> {t \<in> set (textItems s). pageIndex_ti t = p}. set (drawEditedText fails p (snd sz) t))"
  by (auto simp: exportPage_def Let_def)

lemma exportPage_rank_bounds:
  assumes "op \<in> set (exportPage fails s p sz)"
  shows "2 * p \<le> rank op \<and> rank op \<le> 2 * p + 1"
  using assms by (auto simp: exportPage_set rank_cover dest: rank_text)

lemma sorted_const: "\<forall>x \<in> set xs. x = (c::int) \<Longrightarrow> sorted xs"
  by (induction xs) auto

lemma exportPage_sorted: "sorted (map rank (exportPage fails s p sz))"
proof -
  let ?ts = "filter (\<lambda>item. pageIndex_ti item = p) (textItems s)"
  have a: "map rank (map (coverRectangle p (snd sz)) ?ts) = replicate (length ?ts) (2 * p)"
    by (simp add: map_replicate_const [symmetric] rank_cover comp_def)
  have b: "\<forall>r \<in> set (map rank (concat (map (drawEditedText fails p (snd sz)) ?ts))). r = 2 * p + 1"
    by (auto dest: rank_text)
  have c: "sorted (map rank (concat (map (drawEditedText fails p (snd sz)) ?ts)))"
    using b by (intro sorted_const) blast
  show ?thesis
    unfolding exportPage_def Let_def map_append a
    using b c by (auto simp: sorted_append)
qed

lemma exportPages_from_sorted:
  "sorted (map rank (concat (map (\<lambda>(k, sz). exportPage fails s (int k) sz) (enumerate n sizes)))) \<and>
   (\<forall>op \<in> set (concat (map (\<lambda>(k, sz). exportPage fails s (int k) sz) (enumerate n sizes))).
      2 * int n \<le> rank op)"
proof (induction sizes arbitrary: n)
  case Nil
  then show ?case by simp
next
  case (Cons sz sizes)
  have here: "\<forall>op \<in> set (exportPage fails s (int n) sz). 2 * int n \<le> rank op \<and> rank op \<le> 2 * int n + 1"
    using exportPage_rank_bounds by blast
  have later: "\<forall>op \<in> set (concat (map (\<lambda>(k, sz). exportPage fails s (int k) sz)
                  (enumerate (Suc n) sizes))). 2 * int (Suc n) \<le> rank op"
    using Cons.IH [of "Suc n"] by blast
  have srt: "sorted (map rank (concat (map (\<lambda>(k, sz). exportPage fails s (int k) sz)
                  (enumerate (Suc n) sizes))))"
    using Cons.IH [of "Suc n"] by blast
  show ?case
  proof
    show "sorted (map rank (concat (map (\<lambda>(k, sz). exportPage fails s (int k) sz)
            (enumerate n (sz # sizes)))))"
      using here later srt exportPage_sorted [of fails s "int n" sz]
      by (fastforce simp: sorted_append)
  next
    show "\<forall>op \<in> set (concat (map (\<lambda>(k, sz). exportPage fails s (int k) sz)
              (enumerate n (sz # sizes)))). 2 * int n \<le> rank op"
      using here later by fastforce
  qed
qed

lemma exportPages_sorted: "sorted (map rank (exportPages fails sizes s))"
  unfolding exportPages_def using exportPages_from_sorted [of fails s 0 sizes] by blast

lemma exportPages_set:
  "set (exportPages fails sizes s) =
     (\<Union>p \<in> {..<length sizes}. set (exportPage fails s (int p) (sizes ! p)))"
proof -
  have "set (enumerate 0 sizes) = (\<lambda>p. (p, sizes ! p)) ` {..<length sizes}"
    by (auto simp: in_set_enumerate_eq image_iff)
  then show ?thesis
    by (simp add: exportPages_def case_prod_unfold)
qed

text \<open>
  C2. In the drawing operations of an export, a cover rectangle on a page comes before
  every text drawn on that page; every run on an exported page gets its cover rectangle;
  and every text drawn is the text of a run on that page whose text is not empty after
  trimming.
\<close>

theorem exportPages_covers_before_texts:
  "let ops = exportPages fails sizes s in
     (\<forall>i j. i < length ops \<and> j < length ops \<and> isDrawRectangle (ops ! i) \<and> isDrawText (ops ! j)
            \<and> opPage (ops ! i) = opPage (ops ! j) \<longrightarrow> i < j) \<and>
     (\<forall>p t. p < length sizes \<and> t \<in> set (textItems s) \<and> pageIndex_ti t = int p \<longrightarrow>
            coverRectangle (int p) (snd (sizes ! p)) t \<in> set ops) \<and>
     (\<forall>op \<in> set ops. isDrawText op \<longrightarrow>
        (\<exists>t \<in> set (textItems s).
           pageIndex_ti t = opPage op \<and> text_ti t = opText op \<and> trim (text_ti t) \<noteq> []))"
proof -
  let ?ops = "exportPages fails sizes s"
  have order: "i < j"
    if "i < length ?ops" "j < length ?ops" "isDrawRectangle (?ops ! i)" "isDrawText (?ops ! j)"
       "opPage (?ops ! i) = opPage (?ops ! j)" for i j
  proof (rule ccontr)
    assume "\<not> i < j"
    then have "j \<le> i" by simp
    with that(1) have "map rank ?ops ! j \<le> map rank ?ops ! i"
      using exportPages_sorted [of fails sizes s] by (simp add: sorted_iff_nth_mono)
    then have "rank (?ops ! j) \<le> rank (?ops ! i)"
      using that(1,2) by simp
    moreover have "\<not> isDrawText (?ops ! i)"
      using that(3) by (cases "?ops ! i") simp_all
    ultimately show False
      using that(4,5) by (simp add: rank_def)
  qed
  have covers: "coverRectangle (int p) (snd (sizes ! p)) t \<in> set ?ops"
    if "p < length sizes" "t \<in> set (textItems s)" "pageIndex_ti t = int p" for p t
    using that by (auto simp: exportPages_set exportPage_set)
  have texts: "\<exists>t \<in> set (textItems s).
           pageIndex_ti t = opPage op \<and> text_ti t = opText op \<and> trim (text_ti t) \<noteq> []"
    if "op \<in> set ?ops" "isDrawText op" for op
  proof -
    from that(1) obtain p where "op \<in> set (exportPage fails s (int p) (sizes ! p))"
      by (auto simp: exportPages_set)
    then consider t where "t \<in> set (textItems s)" "pageIndex_ti t = int p"
         "op = coverRectangle (int p) (snd (sizes ! p)) t"
      | t where "t \<in> set (textItems s)" "pageIndex_ti t = int p"
         "op \<in> set (drawEditedText fails (int p) (snd (sizes ! p)) t)"
      by (auto simp: exportPage_set)
    then show ?thesis
    proof cases
      case 1
      with that(2) show ?thesis by (simp add: coverRectangle_op)
    next
      case 2
      with drawEditedText_ops [OF 2(3)] show ?thesis by auto
    qed
  qed
  show ?thesis
    unfolding Let_def using order covers texts by blast
qed

theorem exportPages_covers_before_texts_witness:
  "(let ops = exportPages (\<lambda>font t. False) [(200, 200)] overlapSession in
      ops = [DrawRectangle 0 8 164 54 18, DrawRectangle 0 53 162 54 18,
             DrawRectangle 0 118 162 8 18,
             DrawText 0 (utf16 ''Hello'') 10 180 14 black (Some ''Helvetica''),
             DrawText 0 (utf16 ''World'') 55 178 14 black (Some ''Helvetica'')] \<and>
      2 < length ops \<and> 3 < length ops \<and> isDrawRectangle (ops ! 2) \<and> isDrawText (ops ! 3) \<and>
      opPage (ops ! 2) = opPage (ops ! 3) \<and> (2::nat) < 3)"
  using exportPages_covers_before_texts [of "\<lambda>font t. False" "[(200, 200)]" overlapSession]
  by (simp add: exportPages_def exportPage_def overlapSession_def initialSession_def helloItem_def
      worldItem_def blankItem_def coverRectangle_def drawEditedText_def trim_def isWhiteSpace_def
      rgb01_def black_def Let_def enumerate_eq_zip utf16_def)

subsection \<open>Annotations\<close>

text \<open>
  C1 on the code: the points of an annotation are captured as pixels of the annotation
  canvas, and what is stored is drawn at those pixels. With the rectangle tool at scale
  \<open>1\<close>, on a page \<open>200\<close> points wide, a mouse down at \<open>(100, 100)\<close> and a move to
  \<open>(150, 150)\<close> give the path of these two pixel positions, not the fractions
  \<open>(0.5, 0.5)\<close> and \<open>(0.75, 0.75)\<close>. An annotation with this path is drawn at scale
  \<open>2\<close>, on the canvas of \<open>400\<close> pixels, from \<open>(100, 100)\<close> with the size \<open>50\<close> by
  \<open>50\<close>: a quarter into the page, not half. The mouse up stores \<^verbatim>\<open>null\<close> in place
  of the annotation, and drawing the annotations then throws.
\<close>

theorem annotation_pixels_at_capture:
  "(let captured = handleAnnotationMove (Some canvasOrigin) (mouseAt 150 150)
                     (handleAnnotationStart 0 (Some canvasOrigin) (mouseAt 100 100) rectangleSession);
        released = handleAnnotationEnd captured
    in scale rectangleSession = 1 \<and>
       map_option path (currentAnnotation captured)
         = Some [\<lparr>x_pt = 100, y_pt = 100\<rparr>, \<lparr>x_pt = 150, y_pt = 150\<rparr>] \<and>
       map_option type_an (currentAnnotation captured) = Some Rectangle \<and>
       renderAnnotations (Some canvas400) 0
           (rectangleSession\<lparr>scale := 2, annotations := [currentAnnotation captured]\<rparr>)
         = Inr [ClearRect 0 0 400 400, StrokeRect 100 100 50 50 ''#ff0000'' 2] \<and>
       annotations released = [None] \<and>
       currentAnnotation released = None \<and>
       renderAnnotations (Some canvas400) 0 (released\<lparr>scale := 2\<rparr>) = Inl TypeError)"
  by (simp add: handleAnnotationEnd_def handleAnnotationMove_def handleAnnotationStart_def
      rectangleSession_def initialSession_def canvasOrigin_def mouseAt_def newAnnotation_def
      canvasPoint_def renderAnnotations_def drawAnnotation_def canvas400_def Let_def)

subsection \<open>Page navigation\<close>










subsection \<open>Zoom\<close>

text \<open>The zoom buttons keep a scale that is within \<open>0.5..3\<close> within it.\<close>

lemma zoom_buttons_keep_range:
  assumes "1/2 \<le> scale s" and "scale s \<le> 3"
  shows "1/2 \<le> scale (handleZoomIn s) \<and> scale (handleZoomIn s) \<le> 3 \<and>
         1/2 \<le> scale (handleZoomOut s) \<and> scale (handleZoomOut s) \<le> 3"
  using assms by (simp add: handleZoomIn_def handleZoomOut_def)

text \<open>
  C8 on the code: the fit operations do not clamp. From the initial scale \<open>1.5\<close>, with
  the page of \<open>200\<close> points rendered \<open>300\<close> pixels wide, fitting to a container
  \<open>1000\<close> pixels wide sets the scale \<open>4.5\<close>, above the \<open>3\<close> that zooming in stops at;
  zooming out from there gives \<open>4.25\<close>; fitting to a container \<open>100\<close> pixels wide
  sets the scale \<open>0\<close>.
\<close>

theorem fit_leaves_zoom_range:
  "scale initialSession = 3/2 \<and>
   scale (handleFitToWidth (Some wideContainer) (Some renderedCanvas) initialSession) = 9/2 \<and>
   scale (handleFitToScreen (Some wideContainer) (Some renderedCanvas) initialSession) = 9/2 \<and>
   scale (handleZoomOut (handleFitToWidth (Some wideContainer) (Some renderedCanvas) initialSession))
     = 17/4 \<and>
   scale (handleFitToWidth (Some narrowContainer) (Some renderedCanvas) initialSession) = 0"
  by (simp add: handleFitToWidth_def handleFitToScreen_def handleZoomOut_def initialSession_def
      wideContainer_def narrowContainer_def renderedCanvas_def Let_def)

subsection \<open>Coordinate transform\<close>





end
